theory Spec2Isabelle
  imports Main "HOL-Library.Word"
begin

section \<open>cmp: comparing two byte sources\<close>

text \<open>
  A shallow embedding of \<^verbatim>\<open>cmds/cmp/cmp.go\<close>. A Go \<^verbatim>\<open>byte\<close> is an 8-bit word and
  the two counters are \<^verbatim>\<open>int64\<close>, 64-bit words that wrap around and are printed through
  their signed reading.
\<close>

type_synonym byte = "8 word"
type_synonym int64 = "64 word"

subsection \<open>Flags\<close>

text \<open>The three package-level flags \<^verbatim>\<open>-l\<close>, \<^verbatim>\<open>-L\<close> and \<^verbatim>\<open>-s\<close>.\<close>

record flags =
  long :: bool
  line :: bool
  silent :: bool

subsection \<open>What the program writes\<close>

text \<open>
  Every write of the program goes to standard error. One constructor stands for each
  print statement of the source and carries that statement's arguments; \<open>Fprintf_\<close>
  constructors are calls of \<^verbatim>\<open>fmt.Fprintf(os.Stderr, ...)\<close>, \<open>Log_\<close> constructors are
  calls of the standard logger, which puts the date and time in front of the text.
\<close>

datatype num_error = ErrSyntax | ErrRange

datatype event =
    Fprintf_bad_offset1 string num_error
  | Log_bad_offset1 string num_error
  | Fprintf_bad_offset2 string num_error
  | Log_fatal_expected nat
  | Log_fatal_open string
  | Log_fatal_seek
  | Fprintf_differ_line string string int64 int64
  | Fprintf_EOF string
  | Fprintf_long int64 byte byte
  | Fprintf_differ string string int64

subsection \<open>Channels\<close>

text \<open>
  A channel is modelled by the bytes still to be received from it; its reader closes it
  after the last one. Receiving from a closed and drained channel yields the zero value
  of the element type, so \<^verbatim>\<open>b1 = <-c[0]\<close> never blocks on a finite source.
\<close>

fun recv :: "byte list \<Rightarrow> byte \<times> byte list" where
  "recv [] = (0, [])"
| "recv (b # bs) = (b, bs)"

subsection \<open>The comparison loop\<close>

record cmp_state =
  c0 :: "byte list"
  c1 :: "byte list"
  lineno :: int64
  charno :: int64

text \<open>
  One pass through the body of the \<^verbatim>\<open>for\<close> loop of \<^verbatim>\<open>main\<close>. \<open>Exit es n\<close> is a
  call of \<^verbatim>\<open>os.Exit(n)\<close> after writing \<open>es\<close>; \<open>Next es s\<close> is reaching the end of the
  body, after writing \<open>es\<close>, with the state \<open>s\<close> for the next pass.
\<close>

datatype step = Exit "event list" int | Next "event list" cmp_state

text \<open>The code from the label \<^verbatim>\<open>skip\<close> to the end of the loop body.\<close>

definition skip :: "event list \<Rightarrow> byte \<Rightarrow> byte \<Rightarrow> cmp_state \<Rightarrow> step" where
  "skip es b1 b2 s =
     (let charno' = charno s + 1;
          lineno' = (if b1 = 10 then lineno s + 1 else lineno s)
      in if b1 = 0 \<and> b2 = 0 then Exit es 0
         else Next es (s\<lparr>lineno := lineno', charno := charno'\<rparr>))"

definition iter :: "flags \<Rightarrow> string \<Rightarrow> string \<Rightarrow> cmp_state \<Rightarrow> step" where
  "iter fl fname0 fname1 s =
     (let (b1, r0) = recv (c0 s);
          (b2, r1) = recv (c1 s);
          s' = s\<lparr>c0 := r0, c1 := r1\<rparr>
      in if b1 \<noteq> b2 then
           if silent fl then Exit [] 1
           else if line fl then
             Exit [Fprintf_differ_line fname0 fname1 (charno s) (lineno s)] 1
           else if long fl then
             if b1 = 0 then Exit [Fprintf_EOF fname0] 1
             else if b2 = 0 then Exit [Fprintf_EOF fname1] 1
             else skip [Fprintf_long (charno s) b1 b2] b1 b2 s'
           else Exit [Fprintf_differ fname0 fname1 (charno s)] 1
         else skip [] b1 b2 s')"

text \<open>
  The \<^verbatim>\<open>for\<close> loop: passes are made until one of them exits the process. The result
  is everything written, in order, and the exit status.
\<close>

function loop :: "flags \<Rightarrow> string \<Rightarrow> string \<Rightarrow> cmp_state \<Rightarrow> event list \<times> int" where
  "loop fl fname0 fname1 s =
     (case iter fl fname0 fname1 s of
        Exit es n \<Rightarrow> (es, n)
      | Next es s' \<Rightarrow>
          (case loop fl fname0 fname1 s' of (es', n) \<Rightarrow> (es @ es', n)))"
  by pat_completeness auto
termination
proof (relation "measure (\<lambda>(fl, fname0, fname1, s). length (c0 s) + length (c1 s))", goal_cases)
  case 1
  show ?case by simp
next
  case (2 fl fname0 fname1 s es s')
  obtain b1 r0 where r0: "recv (c0 s) = (b1, r0)" by (cases "recv (c0 s)")
  obtain b2 r1 where r1: "recv (c1 s) = (b2, r1)" by (cases "recv (c1 s)")
  from 2 r0 r1 have ne: "b1 \<noteq> 0 \<or> b2 \<noteq> 0" and c: "c0 s' = r0" "c1 s' = r1"
    by (auto simp: iter_def skip_def Let_def split: if_splits)
  from r0 have l0: "length r0 \<le> length (c0 s)" "b1 \<noteq> 0 \<Longrightarrow> length r0 < length (c0 s)"
    by (cases "c0 s"; auto)+
  from r1 have l1: "length r1 \<le> length (c1 s)" "b2 \<noteq> 0 \<Longrightarrow> length r1 < length (c1 s)"
    by (cases "c1 s"; auto)+
  from ne l0 l1 c show ?case by auto
qed

subsection \<open>Stream readers\<close>

text \<open>
  An opened file as \<^verbatim>\<open>emit\<close> sees it: the bytes that can be read from position 0 on,
  the error that \<^verbatim>\<open>ReadByte\<close> returns after the last of them (\<^verbatim>\<open>io.EOF\<close> at the end of
  the data, or a failure of the underlying read), and whether \<^verbatim>\<open>Seek\<close> succeeds on it
  (it does on a regular file, also beyond its end, and fails on a pipe or a terminal).
\<close>

datatype read_error = EOF | Read_failed

record source =
  bytes :: "byte list"
  ending :: read_error
  seekable :: bool

text \<open>
  The \<^verbatim>\<open>for\<close> loop of \<^verbatim>\<open>emit\<close> over the bytes left to read: each byte read is sent
  on the channel; when \<^verbatim>\<open>ReadByte\<close> returns an error, whichever it is, the channel is
  closed and the error is returned. The result is what the channel carries before it
  is closed, and the returned error.
\<close>

fun emit_loop :: "byte list \<Rightarrow> read_error \<Rightarrow> byte list \<times> read_error" where
  "emit_loop [] err = ([], err)"
| "emit_loop (b # bs) err = (case emit_loop bs err of (c, err') \<Rightarrow> (b # c, err'))"

text \<open>
  \<^verbatim>\<open>emit\<close>: a seek only for an offset above 0; a failed seek is \<^verbatim>\<open>log.Fatalf\<close>, here
  \<open>Inl ()\<close>.
\<close>

definition emit :: "source \<Rightarrow> int64 \<Rightarrow> unit + byte list \<times> read_error" where
  "emit rs offset =
     (if 0 <s offset then
        if seekable rs then Inr (emit_loop (drop (nat (sint offset)) (bytes rs)) (ending rs))
        else Inl ()
      else Inr (emit_loop (bytes rs) (ending rs)))"

subsection \<open>Opening the sources\<close>

text \<open>
  The environment of a run: standard input and the files that can be opened by name.
  Each opened name is read as a byte sequence of its own; a run that names standard
  input twice has two readers on one stream and is outside this model.
\<close>

record env =
  stdin :: source
  files :: "string \<Rightarrow> source option"

definition openFile :: "env \<Rightarrow> string \<Rightarrow> source option" where
  "openFile e name = (if name = ''-'' then Some (stdin e) else files e name)"

subsection \<open>Offsets\<close>

text \<open>
  Modelled from the spec: \<^verbatim>\<open>strconv.ParseInt(s, 0, 64)\<close> belongs to Go's standard
  library and is not part of the repository. The spec and the comment at the head of
  \<^verbatim>\<open>cmp.go\<close> give its rule: an optional sign, then a token that begins with \<^verbatim>\<open>0x\<close> is
  hexadecimal, one that begins with \<^verbatim>\<open>0\<close> is octal, anything else is decimal; a token
  that is no such number is a syntax error, a number that does not fit 64 signed bits
  is a range error.
\<close>

definition digit_val :: "char \<Rightarrow> int option" where
  "digit_val d =
     (let n = (of_char d :: int)
      in if 48 \<le> n \<and> n \<le> 57 then Some (n - 48)
         else if 97 \<le> n \<and> n \<le> 122 then Some (n - 97 + 10)
         else if 65 \<le> n \<and> n \<le> 90 then Some (n - 65 + 10)
         else None)"

text \<open>
  Modelled from the spec: the digits of the token after its prefix, read in the detected
  base from the value \<open>n\<close> on; a character that is no digit of the base is a syntax
  error, a value beyond 64 unsigned bits a range error.
\<close>

fun parse_digits :: "int \<Rightarrow> int \<Rightarrow> string \<Rightarrow> num_error + int" where
  "parse_digits base n [] = Inr n"
| "parse_digits base n (d # ds) =
     (case digit_val d of
        None \<Rightarrow> Inl ErrSyntax
      | Some v \<Rightarrow>
          if base \<le> v then Inl ErrSyntax
          else if 2 ^ 64 \<le> n * base + v then Inl ErrRange
          else parse_digits base (n * base + v) ds)"

text \<open>
  Modelled from the spec: the unsigned part of \<^verbatim>\<open>strconv.ParseInt\<close> with base 0, which
  detects the base from the prefix of the token.
\<close>

definition ParseUint :: "string \<Rightarrow> num_error + int" where
  "ParseUint s =
     (if s = [] then Inl ErrSyntax
      else if 1 < length s \<and> hd s = CHR ''0'' \<and> (s ! 1 = CHR ''x'' \<or> s ! 1 = CHR ''X'') then
        if length s < 3 then Inl ErrSyntax else parse_digits 16 0 (drop 2 s)
      else if hd s = CHR ''0'' then parse_digits 8 0 (tl s)
      else parse_digits 10 0 s)"

text \<open>
  Modelled from the spec: \<^verbatim>\<open>strconv.ParseInt(s, 0, 64)\<close>, the sign and the range of a
  signed 64-bit integer around the unsigned part.
\<close>

definition ParseInt :: "string \<Rightarrow> num_error + int64" where
  "ParseInt s =
     (if s = [] then Inl ErrSyntax
      else
        let neg = (hd s = CHR ''-'');
            s' = (if hd s = CHR ''+'' \<or> hd s = CHR ''-'' then tl s else s)
        in case ParseUint s' of
             Inl err \<Rightarrow> Inl err
           | Inr un \<Rightarrow>
               if \<not> neg \<and> 2 ^ 63 \<le> un then Inl ErrRange
               else if neg \<and> 2 ^ 63 < un then Inl ErrRange
               else Inr (if neg then - word_of_int un else word_of_int un))"

subsection \<open>main\<close>

text \<open>
  The \<^verbatim>\<open>switch\<close> on the number of arguments: the two offsets, or what the run writes and
  its exit status when it ends there. A \<^verbatim>\<open>return\<close> from \<^verbatim>\<open>main\<close> ends the process with
  status 0, \<^verbatim>\<open>log.Fatalf\<close> ends it with status 1.
\<close>

definition main_offsets :: "string list \<Rightarrow> event list \<times> int + int64 \<times> int64" where
  "main_offsets fnames =
     (if length fnames = 2 then Inr (0, 0)
      else if length fnames = 3 then
        (case ParseInt (fnames ! 2) of
           Inl err \<Rightarrow> Inl ([Fprintf_bad_offset1 (fnames ! 2) err], 0)
         | Inr offset0 \<Rightarrow> Inr (offset0, 0))
      else if length fnames = 4 then
        (case ParseInt (fnames ! 2) of
           Inl err \<Rightarrow> Inl ([Log_bad_offset1 (fnames ! 2) err], 0)
         | Inr offset0 \<Rightarrow>
             (case ParseInt (fnames ! 3) of
                Inl err \<Rightarrow> Inl ([Fprintf_bad_offset2 (fnames ! 3) err], 0)
              | Inr offset1 \<Rightarrow> Inr (offset0, offset1)))
      else Inl ([Log_fatal_expected (length fnames)], 1))"

text \<open>
  The two readers and the comparison. \<^verbatim>\<open>go emit(...)\<close> drops the error that \<^verbatim>\<open>emit\<close>
  returns. Each reader seeks before it sends anything and the loop writes only after
  it has received from both channels, so a failed seek ends the run, with status 1,
  before the comparison has written anything.
\<close>

definition compare :: "flags \<Rightarrow> string \<Rightarrow> string \<Rightarrow> source \<Rightarrow> source \<Rightarrow> int64 \<Rightarrow> int64
    \<Rightarrow> event list \<times> int" where
  "compare fl fname0 fname1 f0 f1 offset0 offset1 =
     (case emit f0 offset0 of
        Inl _ \<Rightarrow> ([Log_fatal_seek], 1)
      | Inr (ch0, _) \<Rightarrow>
          (case emit f1 offset1 of
             Inl _ \<Rightarrow> ([Log_fatal_seek], 1)
           | Inr (ch1, _) \<Rightarrow>
               loop fl fname0 fname1 \<lparr>c0 = ch0, c1 = ch1, lineno = 1, charno = 1\<rparr>))"

definition main :: "env \<Rightarrow> flags \<Rightarrow> string list \<Rightarrow> event list \<times> int" where
  "main e fl fnames =
     (case main_offsets fnames of
        Inl r \<Rightarrow> r
      | Inr (offset0, offset1) \<Rightarrow>
          (case openFile e (fnames ! 0) of
             None \<Rightarrow> ([Log_fatal_open (fnames ! 0)], 1)
           | Some f0 \<Rightarrow>
               (case openFile e (fnames ! 1) of
                  None \<Rightarrow> ([Log_fatal_open (fnames ! 1)], 1)
                | Some f1 \<Rightarrow>
                    compare fl (fnames ! 0) (fnames ! 1) f0 f1 offset0 offset1)))"

subsection \<open>The text of the messages\<close>

text \<open>
  The digits of \<open>n\<close> in base \<open>b\<close>, most significant first, as \<^verbatim>\<open>fmt\<close> writes an integer.
\<close>

function digits :: "nat \<Rightarrow> nat \<Rightarrow> string" where
  "digits b n =
     (if b < 2 \<or> n < b then [char_of (48 + n)]
      else digits b (n div b) @ [char_of (48 + n mod b)])"
  by pat_completeness auto
termination
  by (relation "measure (\<lambda>(b, n). n)") auto

text \<open>\<^verbatim>\<open>%d\<close> of an \<^verbatim>\<open>int64\<close>, and \<^verbatim>\<open>%8d\<close>: padded with spaces on the left to 8.\<close>

definition fmt_d :: "int64 \<Rightarrow> string" where
  "fmt_d x = (if sint x < 0 then CHR ''-'' # digits 10 (nat (- sint x))
              else digits 10 (nat (sint x)))"

definition fmt_8d :: "int64 \<Rightarrow> string" where
  "fmt_8d x = replicate (8 - length (fmt_d x)) CHR '' '' @ fmt_d x"

text \<open>
  \<^verbatim>\<open>%#.2o\<close> of a byte: octal, at least 2 digits, and the alternate format puts a \<^verbatim>\<open>0\<close>
  in front unless the first digit is one already.
\<close>

definition fmt_o :: "byte \<Rightarrow> string" where
  "fmt_o b =
     (let ds = digits 8 (unat b);
          ds' = replicate (2 - length ds) CHR ''0'' @ ds
      in if hd ds' = CHR ''0'' then ds' else CHR ''0'' # ds')"

text \<open>
  The text of a message of the comparison loop. The messages before the loop carry the
  text of an error value, and the logger's date and time, which are not modelled.
\<close>

fun text_of :: "event \<Rightarrow> string option" where
  "text_of (Fprintf_differ_line fname0 fname1 cn ln) =
     Some (fname0 @ '' '' @ fname1 @ '' differ: char '' @ fmt_d cn @ '' line '' @ fmt_d ln
           @ [CHR 0x0A])"
| "text_of (Fprintf_EOF fname) = Some (''EOF on '' @ fname @ [CHR 0x0A])"
| "text_of (Fprintf_long cn b1 b2) =
     Some (fmt_8d cn @ '' '' @ fmt_o b1 @ '' '' @ fmt_o b2 @ [CHR 0x0A])"
| "text_of (Fprintf_differ fname0 fname1 cn) =
     Some (fname0 @ '' '' @ fname1 @ '' differ: char '' @ fmt_d cn @ [CHR 0x0A])"
| "text_of _ = None"

section \<open>Properties\<close>

subsection \<open>Unfolding the loop\<close>

declare loop.simps [simp del]

lemma loop_Exit:
  "iter fl fname0 fname1 s = Exit es n \<Longrightarrow> loop fl fname0 fname1 s = (es, n)"
  by (subst loop.simps) simp

lemma loop_Next:
  "iter fl fname0 fname1 s = Next es s' \<Longrightarrow>
   loop fl fname0 fname1 s =
     (es @ fst (loop fl fname0 fname1 s'), snd (loop fl fname0 fname1 s'))"
  by (subst loop.simps) (simp split: prod.splits)

lemma iter_equal:
  "b \<noteq> 0 \<Longrightarrow>
   iter fl fname0 fname1 \<lparr>c0 = b # r0, c1 = b # r1, lineno = ln, charno = cn\<rparr> =
   Next [] \<lparr>c0 = r0, c1 = r1, lineno = (if b = 10 then ln + 1 else ln), charno = cn + 1\<rparr>"
  by (simp add: iter_def skip_def)

lemma iter_nul_pair:
  "iter fl fname0 fname1 \<lparr>c0 = 0 # r0, c1 = 0 # r1, lineno = ln, charno = cn\<rparr> = Exit [] 0"
  by (simp add: iter_def skip_def)

text \<open>
  Over a common prefix without a zero byte the loop writes nothing and only counts:
  one character for each byte, one line for each newline.
\<close>

lemma loop_common_prefix:
  "0 \<notin> set p \<Longrightarrow>
   loop fl fname0 fname1 \<lparr>c0 = p @ r0, c1 = p @ r1, lineno = ln, charno = cn\<rparr> =
   loop fl fname0 fname1
     \<lparr>c0 = r0, c1 = r1, lineno = ln + word_of_nat (count_list p 10),
      charno = cn + word_of_nat (length p)\<rparr>"
proof (induction p arbitrary: ln cn)
  case Nil
  then show ?case by simp
next
  case (Cons b p)
  then have b: "b \<noteq> 0" and p: "0 \<notin> set p" by auto
  have "loop fl fname0 fname1
          \<lparr>c0 = (b # p) @ r0, c1 = (b # p) @ r1, lineno = ln, charno = cn\<rparr> =
        loop fl fname0 fname1
          \<lparr>c0 = p @ r0, c1 = p @ r1, lineno = (if b = 10 then ln + 1 else ln),
           charno = cn + 1\<rparr>"
    using loop_Next [OF iter_equal [OF b]] by simp
  also have "\<dots> = loop fl fname0 fname1
          \<lparr>c0 = r0, c1 = r1,
           lineno = (if b = 10 then ln + 1 else ln) + word_of_nat (count_list p 10),
           charno = cn + 1 + word_of_nat (length p)\<rparr>"
    by (rule Cons.IH [OF p])
  finally show ?case by (simp add: add.assoc)
qed

lemma loop_nul_after_prefix:
  "loop fl fname0 fname1 \<lparr>c0 = p @ 0 # r0, c1 = p @ 0 # r1, lineno = ln, charno = cn\<rparr> =
   ([], 0)"
proof (induction p arbitrary: ln cn)
  case Nil
  show ?case using loop_Exit [OF iter_nul_pair] by simp
next
  case (Cons b p)
  show ?case
  proof (cases "b = 0")
    case True
    then show ?thesis using loop_Exit [OF iter_nul_pair] by simp
  next
    case False
    from loop_Next [OF iter_equal [OF False]] Cons.IH show ?thesis by simp
  qed
qed

lemma emit_loop_eq: "emit_loop bs err = (bs, err)"
  by (induction bs) auto

text \<open>A counter that has not wrapped around is printed as the number it counts.\<close>

lemma sint_word_of_nat_64:
  assumes "k < 2 ^ 63"
  shows "sint (word_of_nat k :: int64) = int k"
proof -
  from assms have k: "int k < 2 ^ 63" by (metis of_nat_less_numeral_power_cancel_iff)
  have "sint (word_of_nat k :: int64) = (int k + 2 ^ 63) mod 2 ^ 64 - 2 ^ 63"
    using int_word_sint [of "int k", where 'a = 64] by simp
  also from k have "(int k + 2 ^ 63) mod 2 ^ 64 = int k + 2 ^ 63"
    by (intro mod_pos_pos_trivial) auto
  finally show ?thesis by simp
qed

lemma fmt_d_word_of_nat: "k < 2 ^ 63 \<Longrightarrow> fmt_d (word_of_nat k) = digits 10 k"
  by (simp add: fmt_d_def sint_word_of_nat_64)

text \<open>A pass that receives two different bytes.\<close>

lemma iter_differ:
  "fst (recv a) \<noteq> fst (recv b) \<Longrightarrow>
   iter fl fname0 fname1 \<lparr>c0 = a, c1 = b, lineno = ln, charno = cn\<rparr> =
     (if silent fl then Exit [] 1
      else if line fl then Exit [Fprintf_differ_line fname0 fname1 cn ln] 1
      else if long fl then
        if fst (recv a) = 0 then Exit [Fprintf_EOF fname0] 1
        else if fst (recv b) = 0 then Exit [Fprintf_EOF fname1] 1
        else Next [Fprintf_long cn (fst (recv a)) (fst (recv b))]
               \<lparr>c0 = snd (recv a), c1 = snd (recv b),
                lineno = (if fst (recv a) = 10 then ln + 1 else ln), charno = cn + 1\<rparr>
      else Exit [Fprintf_differ fname0 fname1 cn] 1)"
  by (cases "recv a"; cases "recv b") (simp add: iter_def skip_def)

text \<open>
  The readers hand the loop the bytes of each source from its offset on; an offset that
  is not above 0 leaves the source at its start.
\<close>

lemma compare_eq_loop:
  assumes "0 <s offset0 \<Longrightarrow> seekable f0" and "0 <s offset1 \<Longrightarrow> seekable f1"
  shows "compare fl fname0 fname1 f0 f1 offset0 offset1 =
         loop fl fname0 fname1
           \<lparr>c0 = drop (nat (sint offset0)) (bytes f0), c1 = drop (nat (sint offset1)) (bytes f1),
            lineno = 1, charno = 1\<rparr>"
proof -
  have e: "emit f off = Inr (drop (nat (sint off)) (bytes f), ending f)"
    if "0 <s off \<Longrightarrow> seekable f" for f off
    using that by (auto simp: emit_def emit_loop_eq word_sless_alt)
  show ?thesis
    by (simp add: compare_def e [OF assms(1)] e [OF assms(2)])
qed

lemma compare_no_offset:
  "compare fl fname0 fname1 f0 f1 0 0 =
   loop fl fname0 fname1 \<lparr>c0 = bytes f0, c1 = bytes f1, lineno = 1, charno = 1\<rparr>"
  using compare_eq_loop [of 0 f0 0 f1 fl fname0 fname1] by simp

text \<open>The first difference after a common prefix without a zero byte.\<close>

lemma loop_first_difference:
  assumes "0 \<notin> set p" and "fst (recv r0) \<noteq> fst (recv r1)"
  shows "loop fl fname0 fname1 \<lparr>c0 = p @ r0, c1 = p @ r1, lineno = 1, charno = 1\<rparr> =
     (if silent fl then ([], 1)
      else if line fl then
        ([Fprintf_differ_line fname0 fname1 (word_of_nat (length p + 1))
            (word_of_nat (count_list p 10 + 1))], 1)
      else if long fl then
        if fst (recv r0) = 0 then ([Fprintf_EOF fname0], 1)
        else if fst (recv r1) = 0 then ([Fprintf_EOF fname1], 1)
        else loop fl fname0 fname1
               \<lparr>c0 = r0, c1 = r1, lineno = word_of_nat (count_list p 10 + 1),
                charno = word_of_nat (length p + 1)\<rparr>
      else ([Fprintf_differ fname0 fname1 (word_of_nat (length p + 1))], 1))"
proof -
  let ?s = "\<lparr>c0 = r0, c1 = r1, lineno = word_of_nat (count_list p 10 + 1),
             charno = word_of_nat (length p + 1)\<rparr>"
  have "loop fl fname0 fname1 \<lparr>c0 = p @ r0, c1 = p @ r1, lineno = 1, charno = 1\<rparr> =
        loop fl fname0 fname1 ?s"
    using loop_common_prefix [OF assms(1), of fl fname0 fname1 r0 r1 1 1]
    by (simp add: add.commute)
  moreover have "loop fl fname0 fname1 ?s = (es, n)"
    if "iter fl fname0 fname1 ?s = Exit es n" for es n
    using that by (rule loop_Exit)
  ultimately show ?thesis
    using iter_differ [OF assms(2), of fl fname0 fname1 "word_of_nat (count_list p 10 + 1)"
        "word_of_nat (length p + 1)"]
    by (auto split: if_splits)
qed

text \<open>The run of \<^verbatim>\<open>cmp -l\<close> on \<^verbatim>\<open>hello\<close> and \<^verbatim>\<open>hellO\<close>, and the text of its message.\<close>

lemma hello_hellO_long:
  "compare \<lparr>long = True, line = False, silent = False\<rparr> ''f1'' ''f2''
     \<lparr>bytes = [104, 101, 108, 108, 111], ending = EOF, seekable = True\<rparr>
     \<lparr>bytes = [104, 101, 108, 108, 79], ending = EOF, seekable = True\<rparr> 0 0 =
   ([Fprintf_long 5 111 79], 0)"
  by (simp add: compare_no_offset loop.simps iter_def skip_def)

lemma text_of_long_5_o_O:
  "text_of (Fprintf_long 5 111 79) = Some (''       5 0157 0117'' @ [CHR 0x0A])"
  by code_simp

text \<open>The offsets that the \<^verbatim>\<open>switch\<close> of \<^verbatim>\<open>main\<close> hands on.\<close>

lemma main_offsets_2: "main_offsets [fname0, fname1] = Inr (0, 0)"
  by (simp add: main_offsets_def)

lemma main_offsets_3:
  "ParseInt t0 = Inr offset0 \<Longrightarrow> main_offsets [fname0, fname1, t0] = Inr (offset0, 0)"
  by (simp add: main_offsets_def)

lemma main_offsets_4:
  "ParseInt t0 = Inr offset0 \<Longrightarrow> ParseInt t1 = Inr offset1 \<Longrightarrow>
   main_offsets [fname0, fname1, t0, t1] = Inr (offset0, offset1)"
  by (simp add: main_offsets_def)

subsection \<open>A zero byte on both sides\<close>

text \<open>
  Claim C3. When the loop receives the byte 0 from both channels in one pass, it ends
  the process there with status 0 and writes nothing, whatever the counters are and
  whatever either source holds after that byte: the test at the end of the loop body
  cannot tell a zero byte of the data from the zero value of a closed channel. In
  particular two sources that agree up to and including a zero byte compare as equal in
  every mode, however they continue.
\<close>

theorem nul_pair_exits_equal:
  "loop fl fname0 fname1 \<lparr>c0 = 0 # r0, c1 = 0 # r1, lineno = ln, charno = cn\<rparr> = ([], 0) \<and>
   loop fl fname0 fname1 \<lparr>c0 = p @ 0 # r0, c1 = p @ 0 # r1, lineno = 1, charno = 1\<rparr> = ([], 0)"
  using loop_nul_after_prefix [of fl fname0 fname1 "[]" r0 r1 ln cn]
    loop_nul_after_prefix [of fl fname0 fname1 p r0 r1 1 1]
  by simp

subsection \<open>Reporting the first difference\<close>

text \<open>
  Claim C1 says that default mode and line-number mode report the first differing
  position \<open>k\<close> whenever the contents of the sources first differ there. The sources
  \<^verbatim>\<open>a\0b\<close> and \<^verbatim>\<open>a\0c\<close> first differ at position 3, yet in both modes the run writes
  nothing and ends with status 0: the zero byte at position 2 is taken for the end of
  both streams.
\<close>

theorem nul_hides_first_difference:
  "compare \<lparr>long = False, line = False, silent = False\<rparr> ''f1'' ''f2''
     \<lparr>bytes = [97, 0, 98], ending = EOF, seekable = True\<rparr>
     \<lparr>bytes = [97, 0, 99], ending = EOF, seekable = True\<rparr> 0 0 = ([], 0) \<and>
   compare \<lparr>long = False, line = True, silent = False\<rparr> ''f1'' ''f2''
     \<lparr>bytes = [97, 0, 98], ending = EOF, seekable = True\<rparr>
     \<lparr>bytes = [97, 0, 99], ending = EOF, seekable = True\<rparr> 0 0 = ([], 0)"
  by (simp add: compare_no_offset loop.simps iter_def skip_def)

subsection \<open>Exit status\<close>

text \<open>
  Claim C2 says that the exit status is 1 whenever a difference was detected, in long
  mode too. With \<^verbatim>\<open>-l\<close>, \<^verbatim>\<open>hello\<close> against \<^verbatim>\<open>hellO\<close> lists the difference at
  position 5 and then ends with status 0: after the listing the loop goes on, finds
  both channels closed and exits as for equal sources.
\<close>

theorem long_mode_exits_zero_after_difference:
  "fst (compare \<lparr>long = True, line = False, silent = False\<rparr> ''f1'' ''f2''
     \<lparr>bytes = [104, 101, 108, 108, 111], ending = EOF, seekable = True\<rparr>
     \<lparr>bytes = [104, 101, 108, 108, 79], ending = EOF, seekable = True\<rparr> 0 0) =
     [Fprintf_long 5 111 79] \<and>
   snd (compare \<lparr>long = True, line = False, silent = False\<rparr> ''f1'' ''f2''
     \<lparr>bytes = [104, 101, 108, 108, 111], ending = EOF, seekable = True\<rparr>
     \<lparr>bytes = [104, 101, 108, 108, 79], ending = EOF, seekable = True\<rparr> 0 0) = 0"
  by (simp add: hello_hellO_long)

subsection \<open>Read errors\<close>

text \<open>
  Claim C4 says that a read error other than end-of-stream is fatal to the program.
  \<^verbatim>\<open>emit\<close> closes its channel and returns on every error alike and \<^verbatim>\<open>main\<close> drops
  the returned error, so a run does not depend on which error ended a source: a source
  whose read fails after \<^verbatim>\<open>ab\<close> is reported as differing at position 3 from
  \<^verbatim>\<open>abcd\<close>, and as equal to a source that is \<^verbatim>\<open>ab\<close>, with status 0 and no message.
\<close>

theorem read_failure_taken_for_end_of_stream:
  "compare fl fname0 fname1 (f0\<lparr>ending := Read_failed\<rparr>) f1 offset0 offset1 =
     compare fl fname0 fname1 (f0\<lparr>ending := EOF\<rparr>) f1 offset0 offset1 \<and>
   compare fl fname0 fname1 f0 (f1\<lparr>ending := Read_failed\<rparr>) offset0 offset1 =
     compare fl fname0 fname1 f0 (f1\<lparr>ending := EOF\<rparr>) offset0 offset1 \<and>
   emit \<lparr>bytes = [97, 98], ending = Read_failed, seekable = True\<rparr> 0 =
     Inr ([97, 98], Read_failed) \<and>
   compare \<lparr>long = False, line = False, silent = False\<rparr> ''f1'' ''f2''
     \<lparr>bytes = [97, 98], ending = Read_failed, seekable = True\<rparr>
     \<lparr>bytes = [97, 98, 99, 100], ending = EOF, seekable = True\<rparr> 0 0 =
   ([Fprintf_differ ''f1'' ''f2'' 3], 1) \<and>
   compare \<lparr>long = False, line = False, silent = False\<rparr> ''f1'' ''f2''
     \<lparr>bytes = [97, 98], ending = Read_failed, seekable = True\<rparr>
     \<lparr>bytes = [97, 98], ending = EOF, seekable = True\<rparr> 0 0 = ([], 0)"
  by (simp add: compare_def emit_def emit_loop_eq loop.simps iter_def skip_def)

subsection \<open>One source a strict prefix of the other\<close>

text \<open>
  Claim C5 as stated has every mode but long mode report a difference at the position
  after the shorter source. Quiet mode reports nothing: on \<^verbatim>\<open>ab\<close> against \<^verbatim>\<open>abc\<close> it
  only exits with status 1.
\<close>

theorem strict_prefix_quiet_counterexample:
  "compare \<lparr>long = False, line = False, silent = True\<rparr> ''f1'' ''f2''
     \<lparr>bytes = [97, 98], ending = EOF, seekable = True\<rparr>
     \<lparr>bytes = [97, 98, 99], ending = EOF, seekable = True\<rparr> 0 0 = ([], 1) \<and>
   compare \<lparr>long = False, line = False, silent = True\<rparr> ''f1'' ''f2''
     \<lparr>bytes = [97, 98], ending = EOF, seekable = True\<rparr>
     \<lparr>bytes = [97, 98, 99], ending = EOF, seekable = True\<rparr> 0 0 \<noteq>
   ([Fprintf_differ ''f1'' ''f2'' 3], 1)"
  by (simp add: compare_no_offset loop.simps iter_def skip_def)

text \<open>
  Claim C5, amended. Let one source be a strict prefix of the other, the shorter one
  without a zero byte and the byte of the longer one that follows the prefix not zero.
  Then, whichever of the two sources is the shorter one, the run ends with status 1;
  quiet mode writes nothing; line-number mode writes the difference with the char
  number length + 1 and the line number; long mode writes the end-of-file message that
  names the shorter source; default mode writes the difference with the char number
  length + 1.
\<close>

theorem strict_prefix_reports:
  assumes "bytes f = p" and "bytes g = p @ y # r" and "0 \<notin> set p" and "y \<noteq> 0"
  shows "compare fl fname0 fname1 f g 0 0 =
           (if silent fl then ([], 1)
            else if line fl then
              ([Fprintf_differ_line fname0 fname1 (word_of_nat (length p + 1))
                  (word_of_nat (count_list p 10 + 1))], 1)
            else if long fl then ([Fprintf_EOF fname0], 1)
            else ([Fprintf_differ fname0 fname1 (word_of_nat (length p + 1))], 1)) \<and>
         compare fl fname0 fname1 g f 0 0 =
           (if silent fl then ([], 1)
            else if line fl then
              ([Fprintf_differ_line fname0 fname1 (word_of_nat (length p + 1))
                  (word_of_nat (count_list p 10 + 1))], 1)
            else if long fl then ([Fprintf_EOF fname1], 1)
            else ([Fprintf_differ fname0 fname1 (word_of_nat (length p + 1))], 1))"
proof -
  have d: "fst (recv []) \<noteq> fst (recv (y # r))" "fst (recv (y # r)) \<noteq> fst (recv [])"
    using assms(4) by auto
  show ?thesis
    using loop_first_difference [OF assms(3) d(1), of fl fname0 fname1]
      loop_first_difference [OF assms(3) d(2), of fl fname0 fname1] assms
    by (simp add: compare_no_offset)
qed

theorem strict_prefix_reports_witness:
  "(0::byte) \<notin> set [97, 98] \<and> (99::byte) \<noteq> 0 \<and>
   compare \<lparr>long = True, line = False, silent = False\<rparr> ''f1'' ''f2''
     \<lparr>bytes = [97, 98], ending = EOF, seekable = True\<rparr>
     \<lparr>bytes = [97, 98, 99], ending = EOF, seekable = True\<rparr> 0 0 = ([Fprintf_EOF ''f1''], 1) \<and>
   compare \<lparr>long = True, line = False, silent = False\<rparr> ''f1'' ''f2''
     \<lparr>bytes = [97, 98, 99], ending = EOF, seekable = True\<rparr>
     \<lparr>bytes = [97, 98], ending = EOF, seekable = True\<rparr> 0 0 = ([Fprintf_EOF ''f2''], 1)"
  using strict_prefix_reports [of "\<lparr>bytes = [97, 98], ending = EOF, seekable = True\<rparr>" "[97, 98]"
      "\<lparr>bytes = [97, 98, 99], ending = EOF, seekable = True\<rparr>" 99 "[]"
      "\<lparr>long = True, line = False, silent = False\<rparr>" "''f1''" "''f2''"]
  by simp


subsection \<open>Long mode\<close>

text \<open>
  Claim C6 says that long mode lists every differing pair at which neither source is at
  its end, and goes on. A zero byte that a source holds is taken for the end of that
  source: \<^verbatim>\<open>\0b\<close> against \<^verbatim>\<open>ab\<close> writes the end-of-file message for the first source
  and stops, though neither source is at its end; and \<^verbatim>\<open>xb\0c\<close> against \<^verbatim>\<open>ab\0d\<close>
  lists position 1 only and never reports position 4.
\<close>

theorem long_mode_nul_byte_taken_for_EOF:
  "compare \<lparr>long = True, line = False, silent = False\<rparr> ''f1'' ''f2''
     \<lparr>bytes = [0, 98], ending = EOF, seekable = True\<rparr>
     \<lparr>bytes = [97, 98], ending = EOF, seekable = True\<rparr> 0 0 = ([Fprintf_EOF ''f1''], 1) \<and>
   compare \<lparr>long = True, line = False, silent = False\<rparr> ''f1'' ''f2''
     \<lparr>bytes = [120, 98, 0, 99], ending = EOF, seekable = True\<rparr>
     \<lparr>bytes = [97, 98, 0, 100], ending = EOF, seekable = True\<rparr> 0 0 =
   ([Fprintf_long 1 120 97], 0)"
  by (simp add: compare_no_offset loop.simps iter_def skip_def)

subsection \<open>Usage errors\<close>

text \<open>
  Claim C7 says that every usage error ends the run with a nonzero exit status. A bad
  offset token is reported and then \<^verbatim>\<open>main\<close> returns, which is exit status 0; only a
  wrong number of arguments ends with status 1.
\<close>

theorem bad_offset_exits_zero:
  "main e fl [''a'', ''b'', ''zz''] = ([Fprintf_bad_offset1 ''zz'' ErrSyntax], 0) \<and>
   main e fl [''a'', ''b'', ''zz'', ''1''] = ([Log_bad_offset1 ''zz'' ErrSyntax], 0) \<and>
   main e fl [''a'', ''b'', ''1'', ''zz''] = ([Fprintf_bad_offset2 ''zz'' ErrSyntax], 0) \<and>
   main e fl [''a''] = ([Log_fatal_expected 1], 1)"
  by (simp add: main_def main_offsets_def ParseInt_def ParseUint_def digit_val_def)

subsection \<open>The counters\<close>

text \<open>
  Claim C8. In every pass that reaches the end of the loop body the char counter goes
  up by one and the line counter goes up by one exactly when the byte received from
  the first source is a newline, whatever the second source sent; a pass on a pair of
  equal bytes other than 0 is such a pass and writes nothing. Both counters start at 1:
  in line-number mode the first difference after a common prefix \<open>p\<close> without a zero byte
  is reported with char number \<open>length p + 1\<close> and line number one more than the number
  of newlines in \<open>p\<close>. Comparing \<^verbatim>\<open>ab\ncd\<close> with \<^verbatim>\<open>ab\nCd\<close> reports char 4, line 2.
\<close>

theorem line_and_char_counters:
  assumes "iter fl fname0 fname1 s = Next es s'"
    and "b \<noteq> 0"
    and "bytes f0 = p @ r0" and "bytes f1 = p @ r1"
    and "0 \<notin> set p" and "fst (recv r0) \<noteq> fst (recv r1)"
    and "line fl'" and "\<not> silent fl'"
  shows "charno s' = charno s + 1 \<and>
         lineno s' = (if fst (recv (c0 s)) = 10 then lineno s + 1 else lineno s) \<and>
         iter fl fname0 fname1 \<lparr>c0 = b # r0, c1 = b # r1, lineno = ln, charno = cn\<rparr> =
           Next [] \<lparr>c0 = r0, c1 = r1, lineno = (if b = 10 then ln + 1 else ln),
                    charno = cn + 1\<rparr> \<and>
         compare fl' fname0 fname1 f0 f1 0 0 =
           ([Fprintf_differ_line fname0 fname1 (word_of_nat (length p + 1))
               (word_of_nat (count_list p 10 + 1))], 1) \<and>
         compare \<lparr>long = False, line = True, silent = False\<rparr> ''f1'' ''f2''
           \<lparr>bytes = [97, 98, 10, 99, 100], ending = EOF, seekable = True\<rparr>
           \<lparr>bytes = [97, 98, 10, 67, 100], ending = EOF, seekable = True\<rparr> 0 0 =
           ([Fprintf_differ_line ''f1'' ''f2'' 4 2], 1) \<and>
         text_of (Fprintf_differ_line ''f1'' ''f2'' 4 2) =
           Some (''f1 f2 differ: char 4 line 2'' @ [CHR 0x0A])"
proof -
  obtain b1 q0 where q0: "recv (c0 s) = (b1, q0)" by (cases "recv (c0 s)")
  obtain b2 q1 where q1: "recv (c1 s) = (b2, q1)" by (cases "recv (c1 s)")
  from assms(1) q0 q1 have 1: "charno s' = charno s + 1"
    and 2: "lineno s' = (if fst (recv (c0 s)) = 10 then lineno s + 1 else lineno s)"
    by (auto simp: iter_def skip_def Let_def split: if_splits)
  have 3: "compare fl' fname0 fname1 f0 f1 0 0 =
           ([Fprintf_differ_line fname0 fname1 (word_of_nat (length p + 1))
               (word_of_nat (count_list p 10 + 1))], 1)"
    using loop_first_difference [OF assms(5,6), of fl' fname0 fname1] assms(3,4,7,8)
    by (simp add: compare_no_offset)
  have 4: "compare \<lparr>long = False, line = True, silent = False\<rparr> ''f1'' ''f2''
           \<lparr>bytes = [97, 98, 10, 99, 100], ending = EOF, seekable = True\<rparr>
           \<lparr>bytes = [97, 98, 10, 67, 100], ending = EOF, seekable = True\<rparr> 0 0 =
           ([Fprintf_differ_line ''f1'' ''f2'' 4 2], 1)"
    by (simp add: compare_no_offset loop.simps iter_def skip_def)
  have 5: "text_of (Fprintf_differ_line ''f1'' ''f2'' 4 2) =
           Some (''f1 f2 differ: char 4 line 2'' @ [CHR 0x0A])"
    by code_simp
  from 1 2 3 4 5 iter_equal [OF assms(2)] show ?thesis by blast
qed

theorem line_and_char_counters_witness:
  "iter \<lparr>long = True, line = False, silent = False\<rparr> ''f1'' ''f2''
     \<lparr>c0 = [97, 98], c1 = [10, 98], lineno = 1, charno = 1\<rparr> =
     Next [Fprintf_long 1 97 10] \<lparr>c0 = [98], c1 = [98], lineno = 1, charno = 2\<rparr> \<and>
   iter \<lparr>long = True, line = False, silent = False\<rparr> ''f1'' ''f2''
     \<lparr>c0 = [10, 98], c1 = [10, 99], lineno = 1, charno = 1\<rparr> =
     Next [] \<lparr>c0 = [98], c1 = [99], lineno = 2, charno = 2\<rparr> \<and>
   compare \<lparr>long = False, line = True, silent = False\<rparr> ''f1'' ''f2''
     \<lparr>bytes = [97, 10, 10, 98], ending = EOF, seekable = True\<rparr>
     \<lparr>bytes = [97, 10, 10, 99], ending = EOF, seekable = True\<rparr> 0 0 =
     ([Fprintf_differ_line ''f1'' ''f2'' 4 3], 1)"
proof -
  have i: "iter \<lparr>long = True, line = False, silent = False\<rparr> ''f1'' ''f2''
     \<lparr>c0 = [97, 98], c1 = [10, 98], lineno = 1, charno = 1\<rparr> =
     Next [Fprintf_long 1 97 10] \<lparr>c0 = [98], c1 = [98], lineno = 1, charno = 2\<rparr>"
    by (simp add: iter_def skip_def)
  show ?thesis
    using i line_and_char_counters [OF i, where b = 10
        and ?f0.0 = "\<lparr>bytes = [97, 10, 10, 98], ending = EOF, seekable = True\<rparr>"
        and p = "[97, 10, 10]" and ?r0.0 = "[98]"
        and ?f1.0 = "\<lparr>bytes = [97, 10, 10, 99], ending = EOF, seekable = True\<rparr>"
        and ?r1.0 = "[99]" and fl' = "\<lparr>long = False, line = True, silent = False\<rparr>"
        and ln = 1 and cn = 1]
    by simp
qed

subsection \<open>The long listing of hello and hellO\<close>

text \<open>
  Claim C9 as stated gives the message of \<^verbatim>\<open>cmp -l\<close> on \<^verbatim>\<open>hello\<close> and \<^verbatim>\<open>hellO\<close> as
  \<^verbatim>\<open>       5 154 117\<close>. The run writes another text, with or without the newline at
  its end.
\<close>

theorem long_listing_text_counterexample:
  "map text_of (fst (compare \<lparr>long = True, line = False, silent = False\<rparr> ''f1'' ''f2''
     \<lparr>bytes = [104, 101, 108, 108, 111], ending = EOF, seekable = True\<rparr>
     \<lparr>bytes = [104, 101, 108, 108, 79], ending = EOF, seekable = True\<rparr> 0 0)) \<noteq>
     [Some ''       5 154 117''] \<and>
   map text_of (fst (compare \<lparr>long = True, line = False, silent = False\<rparr> ''f1'' ''f2''
     \<lparr>bytes = [104, 101, 108, 108, 111], ending = EOF, seekable = True\<rparr>
     \<lparr>bytes = [104, 101, 108, 108, 79], ending = EOF, seekable = True\<rparr> 0 0)) \<noteq>
     [Some (''       5 154 117'' @ [CHR 0x0A])]"
  by (simp add: hello_hellO_long text_of_long_5_o_O del: text_of.simps)

text \<open>
  Claim C9, amended. Comparing \<^verbatim>\<open>hello\<close> and \<^verbatim>\<open>hellO\<close> with \<^verbatim>\<open>-l\<close> writes exactly one
  line, \<^verbatim>\<open>       5 0157 0117\<close>: the char number right-aligned in width 8, then the two
  differing bytes \<^verbatim>\<open>o\<close> and \<^verbatim>\<open>O\<close> in octal, each with the leading 0 of the alternate
  format.
\<close>

theorem long_listing_text:
  "map text_of (fst (compare \<lparr>long = True, line = False, silent = False\<rparr> ''f1'' ''f2''
     \<lparr>bytes = [104, 101, 108, 108, 111], ending = EOF, seekable = True\<rparr>
     \<lparr>bytes = [104, 101, 108, 108, 79], ending = EOF, seekable = True\<rparr> 0 0)) =
     [Some (''       5 0157 0117'' @ [CHR 0x0A])]"
  by (simp add: hello_hellO_long text_of_long_5_o_O del: text_of.simps)

subsection \<open>Offsets\<close>

text \<open>
  Claim C10. The tokens \<^verbatim>\<open>0x1A\<close>, \<^verbatim>\<open>032\<close> and \<^verbatim>\<open>26\<close> all parse to 26: after \<^verbatim>\<open>0x\<close> the
  digits are read in base 16, after any other leading \<^verbatim>\<open>0\<close> in base 8, and a token that
  does not begin with \<^verbatim>\<open>0\<close> in base 10. A reader seeks to its offset before it sends
  anything, so its channel carries the bytes of its source from the offset on. With
  the sources opened, two arguments compare both sources from byte 0; a third argument
  moves the start of the first source only and the second still starts at byte 0; a
  fourth moves the start of the second source only.
\<close>

theorem offsets_parsed_and_applied:
  assumes "openFile e fname0 = Some f0" and "openFile e fname1 = Some f1"
    and "fname0 \<noteq> ''-'' \<or> fname1 \<noteq> ''-''"
    and "ParseInt t0 = Inr offset0" and "ParseInt t1 = Inr offset1"
    and "seekable f0" and "seekable f1"
    and "c \<noteq> CHR ''x''" and "c \<noteq> CHR ''X''" and "d \<noteq> CHR ''0''"
  shows "ParseInt ''0x1A'' = Inr 26 \<and> ParseInt ''032'' = Inr 26 \<and> ParseInt ''26'' = Inr 26 \<and>
         ParseUint (CHR ''0'' # CHR ''x'' # h # hs) = parse_digits 16 0 (h # hs) \<and>
         ParseUint (CHR ''0'' # c # cs) = parse_digits 8 0 (c # cs) \<and>
         ParseUint (d # ds) = parse_digits 10 0 (d # ds) \<and>
         emit f0 offset0 = Inr (drop (nat (sint offset0)) (bytes f0), ending f0) \<and>
         main e fl [fname0, fname1] =
           loop fl fname0 fname1 \<lparr>c0 = bytes f0, c1 = bytes f1, lineno = 1, charno = 1\<rparr> \<and>
         main e fl [fname0, fname1, t0] =
           loop fl fname0 fname1
             \<lparr>c0 = drop (nat (sint offset0)) (bytes f0), c1 = bytes f1,
              lineno = 1, charno = 1\<rparr> \<and>
         main e fl [fname0, fname1, t0, t1] =
           loop fl fname0 fname1
             \<lparr>c0 = drop (nat (sint offset0)) (bytes f0),
              c1 = drop (nat (sint offset1)) (bytes f1), lineno = 1, charno = 1\<rparr>"
proof -
  have p: "ParseInt ''0x1A'' = Inr 26" "ParseInt ''032'' = Inr 26" "ParseInt ''26'' = Inr 26"
    by (simp_all add: ParseInt_def ParseUint_def digit_val_def)
  have u: "ParseUint (CHR ''0'' # CHR ''x'' # h # hs) = parse_digits 16 0 (h # hs)"
    "ParseUint (CHR ''0'' # c # cs) = parse_digits 8 0 (c # cs)"
    "ParseUint (d # ds) = parse_digits 10 0 (d # ds)"
    using assms(8-10) by (simp_all add: ParseUint_def)
  have e: "emit f0 offset0 = Inr (drop (nat (sint offset0)) (bytes f0), ending f0)"
    using assms(6) by (auto simp: emit_def emit_loop_eq word_sless_alt)
  have m2: "main e fl [fname0, fname1] =
           loop fl fname0 fname1 \<lparr>c0 = bytes f0, c1 = bytes f1, lineno = 1, charno = 1\<rparr>"
    using assms(1,2) by (simp add: main_def main_offsets_2 compare_no_offset)
  have m3: "main e fl [fname0, fname1, t0] =
           loop fl fname0 fname1
             \<lparr>c0 = drop (nat (sint offset0)) (bytes f0), c1 = bytes f1,
              lineno = 1, charno = 1\<rparr>"
    using assms(1,2,6) compare_eq_loop [of offset0 f0 0 f1 fl fname0 fname1]
    by (simp add: main_def main_offsets_3 [OF assms(4)])
  have m4: "main e fl [fname0, fname1, t0, t1] =
           loop fl fname0 fname1
             \<lparr>c0 = drop (nat (sint offset0)) (bytes f0),
              c1 = drop (nat (sint offset1)) (bytes f1), lineno = 1, charno = 1\<rparr>"
    using assms(1,2,6,7) compare_eq_loop [of offset0 f0 offset1 f1 fl fname0 fname1]
    by (simp add: main_def main_offsets_4 [OF assms(4,5)])
  from p u e m2 m3 m4 show ?thesis by blast
qed

theorem offsets_parsed_and_applied_witness:
  "ParseInt ''0x2'' = Inr 2 \<and> ParseInt ''01'' = Inr 1 \<and>
   main \<lparr>stdin = \<lparr>bytes = [], ending = EOF, seekable = False\<rparr>,
         files = [''a'' \<mapsto> \<lparr>bytes = [120, 121, 97], ending = EOF, seekable = True\<rparr>,
                  ''b'' \<mapsto> \<lparr>bytes = [122, 97], ending = EOF, seekable = True\<rparr>]\<rparr>
     \<lparr>long = False, line = False, silent = False\<rparr> [''a'', ''b'', ''0x2''] =
     ([Fprintf_differ ''a'' ''b'' 1], 1) \<and>
   main \<lparr>stdin = \<lparr>bytes = [], ending = EOF, seekable = False\<rparr>,
         files = [''a'' \<mapsto> \<lparr>bytes = [120, 121, 97], ending = EOF, seekable = True\<rparr>,
                  ''b'' \<mapsto> \<lparr>bytes = [122, 97], ending = EOF, seekable = True\<rparr>]\<rparr>
     \<lparr>long = False, line = False, silent = False\<rparr> [''a'', ''b'', ''0x2'', ''01''] =
     ([], 0)"
proof -
  have p: "ParseInt ''0x2'' = Inr 2" "ParseInt ''01'' = Inr 1"
    by (simp_all add: ParseInt_def ParseUint_def digit_val_def)
  show ?thesis
    using p offsets_parsed_and_applied [OF _ _ _ p, where ?fname0.0 = "''a''" and ?fname1.0 = "''b''"
        and ?f0.0 = "\<lparr>bytes = [120, 121, 97], ending = EOF, seekable = True\<rparr>"
        and ?f1.0 = "\<lparr>bytes = [122, 97], ending = EOF, seekable = True\<rparr>"
        and e = "\<lparr>stdin = \<lparr>bytes = [], ending = EOF, seekable = False\<rparr>,
         files = [''a'' \<mapsto> \<lparr>bytes = [120, 121, 97], ending = EOF, seekable = True\<rparr>,
                  ''b'' \<mapsto> \<lparr>bytes = [122, 97], ending = EOF, seekable = True\<rparr>]\<rparr>"
        and fl = "\<lparr>long = False, line = False, silent = False\<rparr>"
        and c = "CHR ''7''" and d = "CHR ''9''"]
    by (simp add: openFile_def loop.simps iter_def skip_def)
qed

end
